theory Spec2Isabelle
  imports Complex_Main "HOL-Library.Word"
begin

section \<open>Data model\<close>

text \<open>
  The agents of \<^verbatim>\<open>ddpg_agent.py\<close> and \<^verbatim>\<open>dqn_agent.py\<close>. Python floats and
  NumPy float arrays are idealised as \<^typ>\<open>real\<close> and \<^typ>\<open>real list\<close>; the exceptions
  the code can raise are values of \<open>error\<close>, and a fallible operation returns
  \<open>error + 'a\<close> with \<open>Inl\<close> for the exception.
\<close>

datatype error = ValueError | IndexError

subsection \<open>NumPy operations on one-dimensional arrays\<close>

text \<open>
  An elementwise binary operation with NumPy's broadcasting of one-dimensional operands:
  equal lengths pair up, an operand of length one is stretched, anything else raises
  ValueError.
\<close>

definition np_broadcast :: "('a \<Rightarrow> 'b \<Rightarrow> 'c) \<Rightarrow> 'a list \<Rightarrow> 'b list \<Rightarrow> error + 'c list" where
  "np_broadcast f xs ys =
     (if length xs = length ys then Inr (map2 f xs ys)
      else if length ys = 1 then Inr (map (\<lambda>x. f x (hd ys)) xs)
      else if length xs = 1 then Inr (map (\<lambda>y. f (hd xs) y) ys)
      else Inl ValueError)"

text \<open>\<^verbatim>\<open>xs[i]\<close> for a non-negative index: IndexError out of range.\<close>

definition nth_err :: "'a list \<Rightarrow> nat \<Rightarrow> error + 'a" where
  "nth_err xs i = (if i < length xs then Inr (xs ! i) else Inl IndexError)"

text \<open>\<^verbatim>\<open>np.array(rows)\<close> of rows of floats needs rows of one length; \<^verbatim>\<open>np.vstack\<close>
  needs at least one row as well.\<close>

definition np_array_rows :: "real list list \<Rightarrow> error + real list list" where
  "np_array_rows rows =
     (if list_all (\<lambda>r. length r = length (hd rows)) rows then Inr rows else Inl ValueError)"

definition np_vstack :: "real list list \<Rightarrow> error + real list list" where
  "np_vstack rows = (if rows = [] then Inl ValueError else np_array_rows rows)"

text \<open>\<^verbatim>\<open>a.reshape(-1, n)\<close> of the flattened array: the size must be a multiple of \<open>n\<close>.\<close>

definition np_reshape_rows :: "nat \<Rightarrow> real list \<Rightarrow> error + real list list" where
  "np_reshape_rows n xs =
     (if n = 0 \<or> length xs mod n \<noteq> 0 then Inl ValueError
      else Inr (map (\<lambda>i. take n (drop (i * n) xs)) [0..<length xs div n]))"

text \<open>\<^verbatim>\<open>np.amax\<close> and \<^verbatim>\<open>np.argmax\<close> (the first position of the maximum) raise
  ValueError on an empty array.\<close>

definition np_amax :: "real list \<Rightarrow> error + real" where
  "np_amax xs = (case xs of [] \<Rightarrow> Inl ValueError | x # rest \<Rightarrow> Inr (fold max rest x))"

fun argmax_from :: "real list \<Rightarrow> nat \<Rightarrow> nat \<Rightarrow> real \<Rightarrow> nat" where
  "argmax_from [] i best v = best"
| "argmax_from (x # xs) i best v =
     (if v < x then argmax_from xs (Suc i) i x else argmax_from xs (Suc i) best v)"

definition np_argmax :: "real list \<Rightarrow> error + nat" where
  "np_argmax xs = (case xs of [] \<Rightarrow> Inl ValueError | x # rest \<Rightarrow> Inr (argmax_from rest 1 0 x))"

text \<open>\<^verbatim>\<open>np.arange(start, stop, step)\<close> for a non-zero step.\<close>

definition np_arange :: "real \<Rightarrow> real \<Rightarrow> real \<Rightarrow> real list" where
  "np_arange start stop step =
     map (\<lambda>k. start + real k * step) [0..<nat \<lceil>(stop - start) / step\<rceil>]"

text \<open>\<^verbatim>\<open>Experience = namedtuple("Experience", ["state", "action", "reward", "next_state", "done"])\<close>\<close>

datatype ('s, 'a) Experience =
  Experience (state: 's) (action: 'a) (reward: real) (next_state: 's) (done': bool)

subsection \<open>collections.deque\<close>

text \<open>
  \<^verbatim>\<open>deque(maxlen=n)\<close> of the Python standard library: the items in insertion order
  (oldest first) and the bound. The constructor raises ValueError for a negative
  bound; \<^verbatim>\<open>append\<close> adds on the right and, when the bound is then exceeded, discards
  one item from the left.
\<close>

record 'a deque =
  maxlen :: "nat option"
  items :: "'a list"

definition deque_init :: "int option \<Rightarrow> error + 'a deque" where
  "deque_init m =
     (case m of
        None \<Rightarrow> Inr \<lparr>maxlen = None, items = []\<rparr>
      | Some n \<Rightarrow> if n < 0 then Inl ValueError else Inr \<lparr>maxlen = Some (nat n), items = []\<rparr>)"

definition deque_append :: "'a deque \<Rightarrow> 'a \<Rightarrow> 'a deque" where
  "deque_append d x =
     (let xs = items d @ [x] in
      d\<lparr>items := (case maxlen d of
                     None \<Rightarrow> xs
                   | Some n \<Rightarrow> if n < length xs then tl xs else xs)\<rparr>)"

definition deque_len :: "'a deque \<Rightarrow> int" where
  "deque_len d = int (length (items d))"

subsection \<open>random.sample\<close>


definition random_sample :: "'a list \<Rightarrow> int \<Rightarrow> nat list \<Rightarrow> error + 'a list" where
  "random_sample population k idxs =
     (if k < 0 \<or> int (length population) < k then Inl ValueError
      else Inr (map (\<lambda>i. population ! i) idxs))"

subsection \<open>ReplayBuffer\<close>

record 'e ReplayBuffer =
  rb_size :: int
  memory :: "'e deque"

definition ReplayBuffer_init :: "int \<Rightarrow> error + 'e ReplayBuffer" where
  "ReplayBuffer_init sz =
     (case deque_init (Some sz) of
        Inl e \<Rightarrow> Inl e
      | Inr d \<Rightarrow> Inr \<lparr>rb_size = sz, memory = d\<rparr>)"

definition ReplayBuffer_add ::
  "('s, 'a) Experience ReplayBuffer \<Rightarrow> 's \<Rightarrow> 'a \<Rightarrow> real \<Rightarrow> 's \<Rightarrow> bool \<Rightarrow> ('s, 'a) Experience ReplayBuffer" where
  "ReplayBuffer_add b s a r s' d =
     (let e = Experience s a r s' d in b\<lparr>memory := deque_append (memory b) e\<rparr>)"

definition ReplayBuffer_sample :: "'e ReplayBuffer \<Rightarrow> int \<Rightarrow> nat list \<Rightarrow> error + 'e list" where
  "ReplayBuffer_sample b batch_size idxs = random_sample (items (memory b)) batch_size idxs"

definition ReplayBuffer_len :: "'e ReplayBuffer \<Rightarrow> int" where
  "ReplayBuffer_len b = deque_len (memory b)"

text \<open>A sequence of \<^verbatim>\<open>add\<close> calls, one per experience of the list, first to last.\<close>

fun ReplayBuffer_adds ::
  "('s, 'a) Experience ReplayBuffer \<Rightarrow> ('s, 'a) Experience list \<Rightarrow> ('s, 'a) Experience ReplayBuffer" where
  "ReplayBuffer_adds b [] = b"
| "ReplayBuffer_adds b (e # es) =
     ReplayBuffer_adds (ReplayBuffer_add b (state e) (action e) (reward e) (next_state e) (done' e)) es"


subsection \<open>OUNoise\<close>

record OUNoise =
  noise_size :: nat
  mu :: "real list"
  theta :: real
  sigma :: real
  noise_state :: "real list"

text \<open>\<^verbatim>\<open>OUNoise(size, mu=None, theta=0.15, sigma=0.3)\<close>\<close>

definition OUNoise_init :: "nat \<Rightarrow> real list option \<Rightarrow> real \<Rightarrow> real \<Rightarrow> error + OUNoise" where
  "OUNoise_init sz mu_arg th sg =
     (let m = (case mu_arg of None \<Rightarrow> replicate sz 0 | Some m \<Rightarrow> m) in
      case np_broadcast (*) (replicate sz 1) m of
        Inl e \<Rightarrow> Inl e
      | Inr s \<Rightarrow> Inr \<lparr>noise_size = sz, mu = m, theta = th, sigma = sg, noise_state = s\<rparr>)"

definition OUNoise_reset :: "OUNoise \<Rightarrow> OUNoise" where
  "OUNoise_reset n = n\<lparr>noise_state := mu n\<rparr>"

text \<open>
  \<^verbatim>\<open>sample\<close>; the argument \<open>g\<close> is the draw \<^verbatim>\<open>np.random.randn(len(x))\<close>, a vector of
  \<open>len(x)\<close> standard-normal numbers. The new state is returned beside the updated
  object.
\<close>

definition OUNoise_sample :: "OUNoise \<Rightarrow> real list \<Rightarrow> error + (OUNoise \<times> real list)" where
  "OUNoise_sample n g =
     (let x = noise_state n in
      case np_broadcast (-) (mu n) x of
        Inl e \<Rightarrow> Inl e
      | Inr d \<Rightarrow>
          (case np_broadcast (+) (map ((*) (theta n)) d) (map ((*) (sigma n)) g) of
             Inl e \<Rightarrow> Inl e
           | Inr dx \<Rightarrow>
               (case np_broadcast (+) x dx of
                  Inl e \<Rightarrow> Inl e
                | Inr s \<Rightarrow> Inr (n\<lparr>noise_state := s\<rparr>, s))))"

subsection \<open>The network library\<close>

text \<open>
  A Keras model is its list of parameter tensors (each flattened), which
  \<^verbatim>\<open>get_weights\<close> and \<^verbatim>\<open>set_weights\<close> read and write, and the state of its
  optimizer, which is opaque. \<^verbatim>\<open>set_weights\<close> raises ValueError when the shapes differ
  from the model's own.
\<close>

type_synonym weights = "real list list"

record 'o Model =
  weights :: weights
  optimizer :: 'o

definition get_weights :: "'o Model \<Rightarrow> weights" where
  "get_weights m = weights m"

definition set_weights :: "'o Model \<Rightarrow> weights \<Rightarrow> error + 'o Model" where
  "set_weights m w =
     (if map length w = map length (weights m) then Inr (m\<lparr>weights := w\<rparr>) else Inl ValueError)"

text \<open>
  The forward and training passes are parameters. A prediction maps each row of a
  batch to one output row, so it is given per row: the actor's action for a state,
  the critic's Q value for a state and an action. \<open>float32\<close> is the conversion
  \<^verbatim>\<open>astype(np.float32)\<close>.
\<close>

record 'o keras =
  actor_predict :: "weights \<Rightarrow> real list \<Rightarrow> real list"
  critic_predict :: "weights \<Rightarrow> real list \<Rightarrow> real list \<Rightarrow> real"
  critic_train_on_batch :: "'o Model \<Rightarrow> real list list \<Rightarrow> real list list \<Rightarrow> real list \<Rightarrow> 'o Model"
  critic_get_action_gradients :: "weights \<Rightarrow> real list list \<Rightarrow> real list list \<Rightarrow> real list list"
  actor_train_fn :: "'o Model \<Rightarrow> real list list \<Rightarrow> real list list \<Rightarrow> 'o Model"
  float32 :: "real \<Rightarrow> real"

text \<open>Sums of two lists of tensors of the same shapes, tensor by tensor.\<close>

definition np_add_tensors :: "weights \<Rightarrow> weights \<Rightarrow> error + weights" where
  "np_add_tensors ws vs =
     (if map length ws = map length vs then Inr (map2 (map2 (+)) ws vs) else Inl ValueError)"

subsection \<open>DDPGAgent\<close>

text \<open>
  The fields of the agent. \<open>ddpg_task_shape\<close> is \<^verbatim>\<open>task.action_space.shape\<close>,
  \<open>ddpg_stats\<close> the rows appended to the statistics file, and \<open>ddpg_learn_calls\<close>
  counts the calls of \<^verbatim>\<open>learn\<close> (an observation of the model, not a field of the
  source).
\<close>

record 'o DDPGAgent =
  ddpg_task_shape :: nat
  ddpg_state_size :: nat
  ddpg_action_size :: nat
  ddpg_actor_local :: "'o Model"
  ddpg_actor_target :: "'o Model"
  ddpg_critic_local :: "'o Model"
  ddpg_critic_target :: "'o Model"
  ddpg_noise :: OUNoise
  ddpg_buffer_size :: int
  ddpg_batch_size :: int
  ddpg_memory :: "(real list, real list) Experience ReplayBuffer"
  ddpg_gamma :: real
  ddpg_tau :: real
  ddpg_last_state :: "real list option"
  ddpg_last_action :: "real list option"
  ddpg_total_reward :: real
  ddpg_count :: nat
  ddpg_episode_num :: int
  ddpg_stats :: "(int \<times> real) list"
  ddpg_learn_calls :: nat

definition DDPGAgent_reset_episode_vars :: "'o DDPGAgent \<Rightarrow> 'o DDPGAgent" where
  "DDPGAgent_reset_episode_vars a =
     a\<lparr>ddpg_last_state := None, ddpg_last_action := None, ddpg_total_reward := 0, ddpg_count := 0\<rparr>"

text \<open>
  \<^verbatim>\<open>__init__\<close>: the four freshly built networks are arguments (their initial
  parameters are random), the targets then take the local parameters.
\<close>

definition DDPGAgent_init ::
  "nat \<Rightarrow> 'o Model \<Rightarrow> 'o Model \<Rightarrow> 'o Model \<Rightarrow> 'o Model \<Rightarrow> error + 'o DDPGAgent" where
  "DDPGAgent_init task_shape actor_l actor_t critic_l critic_t =
     (case set_weights actor_t (get_weights actor_l) of
        Inl e \<Rightarrow> Inl e
      | Inr actor_t' \<Rightarrow>
     (case set_weights critic_t (get_weights critic_l) of
        Inl e \<Rightarrow> Inl e
      | Inr critic_t' \<Rightarrow>
     (case OUNoise_init 3 None (15 / 100) (3 / 10) of
        Inl e \<Rightarrow> Inl e
      | Inr nz \<Rightarrow>
     (case ReplayBuffer_init 100000 of
        Inl e \<Rightarrow> Inl e
      | Inr mem \<Rightarrow>
          Inr (DDPGAgent_reset_episode_vars
            \<lparr>ddpg_task_shape = task_shape, ddpg_state_size = 3, ddpg_action_size = 3,
             ddpg_actor_local = actor_l, ddpg_actor_target = actor_t',
             ddpg_critic_local = critic_l, ddpg_critic_target = critic_t',
             ddpg_noise = nz, ddpg_buffer_size = 100000, ddpg_batch_size = 64,
             ddpg_memory = mem, ddpg_gamma = 0, ddpg_tau = 1 / 1000,
             ddpg_last_state = None, ddpg_last_action = None, ddpg_total_reward = 0,
             ddpg_count = 0, ddpg_episode_num = 1, ddpg_stats = [],
             ddpg_learn_calls = 0\<rparr>)))))"

definition DDPGAgent_preprocess_state :: "real list \<Rightarrow> real list" where
  "DDPGAgent_preprocess_state s = take 3 s"

text \<open>
  \<^verbatim>\<open>complete_action[0:3] = action\<close>: the slice has \<open>min 3 shape\<close> places; the action
  fills them when it has as many entries, or one entry, which is repeated.
\<close>

definition DDPGAgent_postprocess_action :: "'o DDPGAgent \<Rightarrow> real list \<Rightarrow> error + real list" where
  "DDPGAgent_postprocess_action a act =
     (let complete_action = replicate (ddpg_task_shape a) (0::real);
          k = min 3 (ddpg_task_shape a) in
      if length act = k then Inr (act @ drop k complete_action)
      else if length act = 1 then Inr (replicate k (hd act) @ drop k complete_action)
      else Inl ValueError)"

text \<open>
  \<^verbatim>\<open>act\<close> for the one state of a step: the reshape to rows of \<open>state_size\<close> needs a
  state of that size; the action is the single output row plus the noise sample.
\<close>

definition DDPGAgent_act ::
  "'o keras \<Rightarrow> 'o DDPGAgent \<Rightarrow> real list \<Rightarrow> real list \<Rightarrow> error + ('o DDPGAgent \<times> real list)" where
  "DDPGAgent_act K a states g =
     (if length states \<noteq> ddpg_state_size a then Inl ValueError
      else
        let actions = actor_predict K (weights (ddpg_actor_local a)) states in
        case OUNoise_sample (ddpg_noise a) g of
          Inl e \<Rightarrow> Inl e
        | Inr (nz, smp) \<Rightarrow>
            (case np_broadcast (+) actions smp of
               Inl e \<Rightarrow> Inl e
             | Inr act \<Rightarrow> Inr (a\<lparr>ddpg_noise := nz\<rparr>, act)))"

definition DDPGAgent_soft_update ::
  "'o DDPGAgent \<Rightarrow> 'o Model \<Rightarrow> 'o Model \<Rightarrow> error + 'o Model" where
  "DDPGAgent_soft_update a local_model target_model =
     (let local_weights = get_weights local_model;
          target_weights = get_weights target_model in
      case np_add_tensors (map (map ((*) (ddpg_tau a))) local_weights)
                          (map (map ((*) (1 - ddpg_tau a))) target_weights) of
        Inl e \<Rightarrow> Inl e
      | Inr new_weights \<Rightarrow> set_weights target_model new_weights)"

text \<open>The experiences of a batch that are not \<^verbatim>\<open>None\<close>.\<close>

definition present :: "'a option list \<Rightarrow> 'a list" where
  "present xs = List.map_filter (\<lambda>x. x) xs"

text \<open>
  The Q targets of \<^verbatim>\<open>learn\<close>:
  \<^verbatim>\<open>rewards + self.gamma * q_target_nexts * (1 - dones)\<close>, with the rewards converted
  to float32, the done flags to uint8, and the next values predicted by the target
  networks.
\<close>

definition DDPGAgent_q_targets ::
  "'o keras \<Rightarrow> 'o DDPGAgent \<Rightarrow> (real list, real list) Experience option list \<Rightarrow> error + real list" where
  "DDPGAgent_q_targets K a experiences =
     (let es = present experiences;
          rewards = map (\<lambda>e. float32 K (reward e)) es;
          dones = map (\<lambda>e. if done' e then (1 :: 8 word) else 0) es in
      case np_vstack (map next_state es) of
        Inl e \<Rightarrow> Inl e
      | Inr next_states \<Rightarrow>
          let action_nexts = map (actor_predict K (weights (ddpg_actor_target a))) next_states;
              q_target_nexts =
                map2 (critic_predict K (weights (ddpg_critic_target a))) next_states action_nexts in
          (case np_broadcast (*) (map ((*) (ddpg_gamma a)) q_target_nexts)
                  (map (\<lambda>d. real (unat (1 - d))) dones) of
             Inl e \<Rightarrow> Inl e
           | Inr t \<Rightarrow> np_broadcast (+) rewards t))"

definition DDPGAgent_learn ::
  "'o keras \<Rightarrow> 'o DDPGAgent \<Rightarrow> (real list, real list) Experience option list \<Rightarrow> error + 'o DDPGAgent" where
  "DDPGAgent_learn K a experiences =
     (let es = present experiences in
      case np_vstack (map state es) of
        Inl e \<Rightarrow> Inl e
      | Inr states \<Rightarrow>
     (case np_array_rows (map action es) of
        Inl e \<Rightarrow> Inl e
      | Inr arr \<Rightarrow>
     (case np_reshape_rows (ddpg_action_size a) (map (float32 K) (concat arr)) of
        Inl e \<Rightarrow> Inl e
      | Inr actions \<Rightarrow>
     (case DDPGAgent_q_targets K a experiences of
        Inl e \<Rightarrow> Inl e
      | Inr q_targets \<Rightarrow>
          let critic_l = critic_train_on_batch K (ddpg_critic_local a) states actions q_targets;
              action_gradients = critic_get_action_gradients K (weights critic_l) states actions;
              actor_l = actor_train_fn K (ddpg_actor_local a) states action_gradients in
          (case DDPGAgent_soft_update a critic_l (ddpg_critic_target a) of
             Inl e \<Rightarrow> Inl e
           | Inr critic_t \<Rightarrow>
          (case DDPGAgent_soft_update a actor_l (ddpg_actor_target a) of
             Inl e \<Rightarrow> Inl e
           | Inr actor_t \<Rightarrow>
               Inr (a\<lparr>ddpg_critic_local := critic_l, ddpg_actor_local := actor_l,
                      ddpg_critic_target := critic_t, ddpg_actor_target := actor_t,
                      ddpg_learn_calls := Suc (ddpg_learn_calls a)\<rparr>)))))))"

text \<open>The random draws of one step: the noise vector and the positions of the batch.\<close>

record ddpg_rand =
  rand_randn :: "real list"
  rand_batch :: "nat list"

text \<open>The part of \<^verbatim>\<open>step\<close> that saves the experience, when there is a previous state
  and action.\<close>

definition DDPGAgent_remember :: "'o DDPGAgent \<Rightarrow> real list \<Rightarrow> real \<Rightarrow> bool \<Rightarrow> 'o DDPGAgent" where
  "DDPGAgent_remember a s r d =
     (case (ddpg_last_state a, ddpg_last_action a) of
        (Some ls, Some la) \<Rightarrow> a\<lparr>ddpg_memory := ReplayBuffer_add (ddpg_memory a) ls la r s d\<rparr>
      | _ \<Rightarrow> a)"

definition DDPGAgent_step ::
  "'o keras \<Rightarrow> 'o DDPGAgent \<Rightarrow> real list \<Rightarrow> real \<Rightarrow> bool \<Rightarrow> ddpg_rand \<Rightarrow>
     error + ('o DDPGAgent \<times> real list)" where
  "DDPGAgent_step K a obs r d rnd =
     (let s = DDPGAgent_preprocess_state obs in
      case DDPGAgent_act K a s (rand_randn rnd) of
        Inl e \<Rightarrow> Inl e
      | Inr (a1, act) \<Rightarrow>
          let a2 = DDPGAgent_remember a1 s r d in
          (case (if ddpg_batch_size a2 < ReplayBuffer_len (ddpg_memory a2)
                 then (case ReplayBuffer_sample (ddpg_memory a2) (ddpg_batch_size a2) (rand_batch rnd) of
                         Inl e \<Rightarrow> Inl e
                       | Inr experiences \<Rightarrow> DDPGAgent_learn K a2 (map Some experiences))
                 else Inr a2) of
             Inl e \<Rightarrow> Inl e
           | Inr a3 \<Rightarrow>
               let a4 = a3\<lparr>ddpg_last_state := Some s, ddpg_last_action := Some act,
                           ddpg_total_reward := ddpg_total_reward a3 + r\<rparr>;
                   a5 = (if d
                         then DDPGAgent_reset_episode_vars
                                (a4\<lparr>ddpg_stats := ddpg_stats a4 @ [(ddpg_episode_num a4, ddpg_total_reward a4)],
                                    ddpg_episode_num := ddpg_episode_num a4 + 1\<rparr>)
                         else a4) in
               (case DDPGAgent_postprocess_action a5 act of
                  Inl e \<Rightarrow> Inl e
                | Inr complete_action \<Rightarrow> Inr (a5, complete_action))))"

text \<open>A sequence of steps, one per observation \<open>(state, reward, done)\<close> with its draws;
  the first exception ends it.\<close>

fun DDPGAgent_run ::
  "'o keras \<Rightarrow> 'o DDPGAgent \<Rightarrow> (real list \<times> real \<times> bool \<times> ddpg_rand) list \<Rightarrow> error + 'o DDPGAgent" where
  "DDPGAgent_run K a [] = Inr a"
| "DDPGAgent_run K a ((obs, r, d, rnd) # rest) =
     (case DDPGAgent_step K a obs r d rnd of
        Inl e \<Rightarrow> Inl e
      | Inr (a', _) \<Rightarrow> DDPGAgent_run K a' rest)"

subsection \<open>DQNAgent\<close>

definition FORCE_Z :: nat where "FORCE_Z = 2"
definition GAMMA :: real where "GAMMA = 9 / 10"
definition EPSILON_MIN :: real where "EPSILON_MIN = 1 / 100"
definition EPSILON_DECAY :: real where "EPSILON_DECAY = 996 / 1000"
definition MEMORY_SIZE :: int where "MEMORY_SIZE = 10000"
definition BATCH_SIZE :: int where "BATCH_SIZE = 64"

text \<open>
  The Q network of the DQN agent is opaque: \<open>predict\<close> is
  \<^verbatim>\<open>model.predict(np.vstack([state]))[0]\<close>, the vector of action values of one state,
  and \<open>fit\<close> one training pass on one state and its target vector.
\<close>

record 'm dqn_keras =
  predict :: "'m \<Rightarrow> real list \<Rightarrow> real list"
  fit :: "'m \<Rightarrow> real list \<Rightarrow> real list \<Rightarrow> 'm"

text \<open>The action space of the task: \<^verbatim>\<open>task.action_space.low\<close> and \<^verbatim>\<open>high\<close>; its
  shape is their length.\<close>

record task =
  action_space_low :: "real list"
  action_space_high :: "real list"

type_synonym transition = "real list \<times> nat \<times> real \<times> real list \<times> bool"

text \<open>
  The fields of the agent. \<open>dqn_stats\<close> holds the rows appended to the statistics file,
  \<open>dqn_saved\<close> the model last written to the weights file, and \<open>dqn_replay_calls\<close>
  counts the calls of \<^verbatim>\<open>replay\<close> (an observation of the model, not a field of the
  source).
\<close>

record 'm DQNAgent =
  dqn_task_shape :: nat
  dqn_state_size :: nat
  dqn_action_range :: real
  dqn_action_low :: real
  dqn_action_high :: real
  dqn_action_map :: "real list"
  dqn_action_size :: nat
  dqn_memory :: "transition deque"
  dqn_model :: 'm
  dqn_epsilon :: real
  dqn_last_state :: "real list option"
  dqn_last_action :: "nat option"
  dqn_total_reward :: real
  dqn_count :: nat
  dqn_episode_num :: int
  dqn_stats :: "(int \<times> real \<times> real) list"
  dqn_saved :: "'m option"
  dqn_replay_calls :: nat

definition DQNAgent_reset_episode_vars :: "'m DQNAgent \<Rightarrow> 'm DQNAgent" where
  "DQNAgent_reset_episode_vars a =
     a\<lparr>dqn_last_state := None, dqn_last_action := None, dqn_total_reward := 0, dqn_count := 0\<rparr>"

text \<open>\<^verbatim>\<open>__init__\<close>; the freshly built network is an argument.\<close>

definition DQNAgent_init :: "task \<Rightarrow> 'm \<Rightarrow> error + 'm DQNAgent" where
  "DQNAgent_init t m =
     (case np_broadcast (-) (action_space_high t) (action_space_low t) of
        Inl e \<Rightarrow> Inl e
      | Inr ranges \<Rightarrow>
     (case nth_err ranges FORCE_Z of
        Inl e \<Rightarrow> Inl e
      | Inr action_range \<Rightarrow>
     (case nth_err (action_space_low t) FORCE_Z of
        Inl e \<Rightarrow> Inl e
      | Inr low \<Rightarrow>
     (case nth_err (action_space_high t) FORCE_Z of
        Inl e \<Rightarrow> Inl e
      | Inr high \<Rightarrow>
     (case deque_init (Some MEMORY_SIZE) of
        Inl e \<Rightarrow> Inl e
      | Inr mem \<Rightarrow>
          let action_map = rev (np_arange high 15 (- 4)) in
          Inr (DQNAgent_reset_episode_vars
            \<lparr>dqn_task_shape = length (action_space_low t), dqn_state_size = 3,
             dqn_action_range = action_range, dqn_action_low = low, dqn_action_high = high,
             dqn_action_map = action_map, dqn_action_size = length action_map,
             dqn_memory = mem, dqn_model = m, dqn_epsilon = 3,
             dqn_last_state = None, dqn_last_action = None, dqn_total_reward = 0,
             dqn_count = 0, dqn_episode_num = 1, dqn_stats = [], dqn_saved = None,
             dqn_replay_calls = 0\<rparr>))))))"

definition DQNAgent_preprocess_state :: "real list \<Rightarrow> real list" where
  "DQNAgent_preprocess_state s = take 3 s"

definition DQNAgent_postprocess_action :: "'m DQNAgent \<Rightarrow> nat \<Rightarrow> error + real list" where
  "DQNAgent_postprocess_action a act =
     (let complete_action = replicate (dqn_task_shape a) (0::real) in
      case nth_err (dqn_action_map a) act of
        Inl e \<Rightarrow> Inl e
      | Inr v \<Rightarrow>
          if FORCE_Z < length complete_action then Inr (complete_action[FORCE_Z := v])
          else Inl IndexError)"

definition DQNAgent_add_memory ::
  "'m DQNAgent \<Rightarrow> real list \<Rightarrow> nat \<Rightarrow> real \<Rightarrow> real list \<Rightarrow> bool \<Rightarrow> 'm DQNAgent" where
  "DQNAgent_add_memory a s act r s' d =
     a\<lparr>dqn_memory := deque_append (dqn_memory a) (s, act, r, s', d)\<rparr>"

text \<open>A sequence of \<^verbatim>\<open>add_memory\<close> calls, one per transition of the list.\<close>

fun DQNAgent_add_memories :: "'m DQNAgent \<Rightarrow> transition list \<Rightarrow> 'm DQNAgent" where
  "DQNAgent_add_memories a [] = a"
| "DQNAgent_add_memories a ((s, act, r, s', d) # ts) =
     DQNAgent_add_memories (DQNAgent_add_memory a s act r s' d) ts"

text \<open>
  \<^verbatim>\<open>act\<close>: \<open>u\<close> is the draw \<^verbatim>\<open>np.random.rand()\<close> and \<open>k\<close> the draw
  \<^verbatim>\<open>random.randrange(self.action_size)\<close>, which raises ValueError for an empty range.
\<close>

definition DQNAgent_act :: "'m dqn_keras \<Rightarrow> 'm DQNAgent \<Rightarrow> real list \<Rightarrow> real \<Rightarrow> nat \<Rightarrow> error + nat" where
  "DQNAgent_act K a s u k =
     (if u \<le> dqn_epsilon a
      then (if dqn_action_size a = 0 then Inl ValueError else Inr k)
      else np_argmax (predict K (dqn_model a) s))"

text \<open>The scalar target of one transition of the mini batch.\<close>

definition DQNAgent_target :: "'m dqn_keras \<Rightarrow> 'm \<Rightarrow> real \<Rightarrow> real list \<Rightarrow> bool \<Rightarrow> error + real" where
  "DQNAgent_target K m r s' d =
     (let target = r in
      if \<not> d
      then (case np_amax (predict K m s') of
              Inl e \<Rightarrow> Inl e
            | Inr q \<Rightarrow> Inr (r + GAMMA * q))
      else Inr target)"

text \<open>The target vector: the prediction on the state with \<^verbatim>\<open>target_f[0][action] = target\<close>.\<close>

definition DQNAgent_target_f :: "'m dqn_keras \<Rightarrow> 'm \<Rightarrow> real list \<Rightarrow> nat \<Rightarrow> real \<Rightarrow> error + real list" where
  "DQNAgent_target_f K m s act target =
     (let target_f = predict K m s in
      if act < length target_f then Inr (target_f[act := target]) else Inl IndexError)"

text \<open>The loop of \<^verbatim>\<open>replay\<close> over the mini batch; each transition trains the network
  the next one is evaluated with.\<close>

fun DQNAgent_replay_loop :: "'m dqn_keras \<Rightarrow> 'm \<Rightarrow> transition list \<Rightarrow> error + 'm" where
  "DQNAgent_replay_loop K m [] = Inr m"
| "DQNAgent_replay_loop K m ((s, act, r, s', d) # rest) =
     (case DQNAgent_target K m r s' d of
        Inl e \<Rightarrow> Inl e
      | Inr target \<Rightarrow>
          (case DQNAgent_target_f K m s act target of
             Inl e \<Rightarrow> Inl e
           | Inr target_f \<Rightarrow> DQNAgent_replay_loop K (fit K m s target_f) rest))"

text \<open>The decay of the exploration rate at the end of \<^verbatim>\<open>replay\<close>.\<close>

definition decay_epsilon :: "real \<Rightarrow> real" where
  "decay_epsilon eps = (if EPSILON_MIN < eps then eps * EPSILON_DECAY else eps)"

definition DQNAgent_replay :: "'m dqn_keras \<Rightarrow> 'm DQNAgent \<Rightarrow> int \<Rightarrow> nat list \<Rightarrow> error + 'm DQNAgent" where
  "DQNAgent_replay K a batch_size idxs =
     (case random_sample (items (dqn_memory a)) batch_size idxs of
        Inl e \<Rightarrow> Inl e
      | Inr mini_batch \<Rightarrow>
          (case DQNAgent_replay_loop K (dqn_model a) mini_batch of
             Inl e \<Rightarrow> Inl e
           | Inr m \<Rightarrow>
               Inr (a\<lparr>dqn_model := m, dqn_epsilon := decay_epsilon (dqn_epsilon a),
                      dqn_replay_calls := Suc (dqn_replay_calls a)\<rparr>)))"

text \<open>A sequence of \<^verbatim>\<open>replay\<close> calls, each with its batch size and the positions drawn.\<close>

fun DQNAgent_replays :: "'m dqn_keras \<Rightarrow> 'm DQNAgent \<Rightarrow> (int \<times> nat list) list \<Rightarrow> error + 'm DQNAgent" where
  "DQNAgent_replays K a [] = Inr a"
| "DQNAgent_replays K a ((n, idxs) # rest) =
     (case DQNAgent_replay K a n idxs of
        Inl e \<Rightarrow> Inl e
      | Inr a' \<Rightarrow> DQNAgent_replays K a' rest)"

text \<open>The random draws of one step.\<close>

record dqn_rand =
  rand_u :: real
  rand_action :: nat
  rand_mini_batch :: "nat list"

definition DQNAgent_remember :: "'m DQNAgent \<Rightarrow> real list \<Rightarrow> real \<Rightarrow> bool \<Rightarrow> 'm DQNAgent" where
  "DQNAgent_remember a s r d =
     (case (dqn_last_state a, dqn_last_action a) of
        (Some ls, Some la) \<Rightarrow> DQNAgent_add_memory a ls la r s d
      | _ \<Rightarrow> a)"

definition DQNAgent_step ::
  "'m dqn_keras \<Rightarrow> 'm DQNAgent \<Rightarrow> real list \<Rightarrow> real \<Rightarrow> bool \<Rightarrow> dqn_rand \<Rightarrow>
     error + ('m DQNAgent \<times> real list)" where
  "DQNAgent_step K a obs r d rnd =
     (let s = DQNAgent_preprocess_state obs in
      case DQNAgent_act K a s (rand_u rnd) (rand_action rnd) of
        Inl e \<Rightarrow> Inl e
      | Inr act \<Rightarrow>
          let a2 = DQNAgent_remember a s r d in
          (case (if BATCH_SIZE < deque_len (dqn_memory a2)
                 then DQNAgent_replay K a2 BATCH_SIZE (rand_mini_batch rnd)
                 else Inr a2) of
             Inl e \<Rightarrow> Inl e
           | Inr a3 \<Rightarrow>
               let a4 = a3\<lparr>dqn_last_state := Some s, dqn_last_action := Some act,
                           dqn_total_reward := dqn_total_reward a3 + r\<rparr>;
                   a5 = (if d
                         then
                           let a6 = a4\<lparr>dqn_stats := dqn_stats a4 @
                                           [(dqn_episode_num a4, dqn_total_reward a4, dqn_epsilon a4)],
                                       dqn_episode_num := dqn_episode_num a4 + 1\<rparr>;
                               a7 = (if dqn_episode_num a6 mod 250 = 0
                                     then a6\<lparr>dqn_saved := Some (dqn_model a6)\<rparr> else a6) in
                           DQNAgent_reset_episode_vars a7
                         else a4) in
               (case DQNAgent_postprocess_action a5 act of
                  Inl e \<Rightarrow> Inl e
                | Inr complete_action \<Rightarrow> Inr (a5, complete_action))))"

fun DQNAgent_run ::
  "'m dqn_keras \<Rightarrow> 'm DQNAgent \<Rightarrow> (real list \<times> real \<times> bool \<times> dqn_rand) list \<Rightarrow> error + 'm DQNAgent" where
  "DQNAgent_run K a [] = Inr a"
| "DQNAgent_run K a ((obs, r, d, rnd) # rest) =
     (case DQNAgent_step K a obs r d rnd of
        Inl e \<Rightarrow> Inl e
      | Inr (a', _) \<Rightarrow> DQNAgent_run K a' rest)"

subsection \<open>Example inputs\<close>

text \<open>A task whose action space has six dimensions, each from -25 to 25.\<close>

definition quad_task :: task where
  "quad_task = \<lparr>action_space_low = [-25, -25, -25, -25, -25, -25], action_space_high = [25, 25, 25, 25, 25, 25]\<rparr>"

text \<open>
  Stand-ins for the network library: the actor answers the zero action, the critic the
  sum of the entries of the state and the action, training changes nothing and the
  conversion to float32 is exact. The models carry two parameter tensors.
\<close>

definition example_keras :: "unit keras" where
  "example_keras =
     \<lparr>actor_predict = (\<lambda>w s. [0, 0, 0]),
      critic_predict = (\<lambda>w s act. sum_list s + sum_list act),
      critic_train_on_batch = (\<lambda>m states actions y. m),
      critic_get_action_gradients = (\<lambda>w states actions. map (\<lambda>s. [0, 0, 0]) states),
      actor_train_fn = (\<lambda>m states grads. m),
      float32 = (\<lambda>x. x)\<rparr>"

definition example_model :: "unit Model" where
  "example_model = \<lparr>weights = [[1000, 2000], [3000]], optimizer = ()\<rparr>"

definition example_target_model :: "unit Model" where
  "example_target_model = \<lparr>weights = [[0, 1000], [- 1000]], optimizer = ()\<rparr>"

text \<open>The DDPG agent that \<^verbatim>\<open>__init__\<close> builds from these models for the task above.\<close>

definition example_ddpg :: "unit DDPGAgent" where
  "example_ddpg =
     \<lparr>ddpg_task_shape = 6, ddpg_state_size = 3, ddpg_action_size = 3,
      ddpg_actor_local = example_model, ddpg_actor_target = example_model,
      ddpg_critic_local = example_model, ddpg_critic_target = example_model,
      ddpg_noise = \<lparr>noise_size = 3, mu = [0, 0, 0], theta = 15 / 100, sigma = 3 / 10,
                     noise_state = [0, 0, 0]\<rparr>,
      ddpg_buffer_size = 100000, ddpg_batch_size = 64,
      ddpg_memory = \<lparr>rb_size = 100000, memory = \<lparr>maxlen = Some 100000, items = []\<rparr>\<rparr>,
      ddpg_gamma = 0, ddpg_tau = 1 / 1000,
      ddpg_last_state = None, ddpg_last_action = None, ddpg_total_reward = 0,
      ddpg_count = 0, ddpg_episode_num = 1, ddpg_stats = [], ddpg_learn_calls = 0\<rparr>"

text \<open>A Q network that prefers the middle one of three actions and that training does
  not change, and the DQN agent that \<^verbatim>\<open>__init__\<close> builds for the task above.\<close>

definition example_dqn_keras :: "unit dqn_keras" where
  "example_dqn_keras = \<lparr>predict = (\<lambda>m s. [0, 1, 0]), fit = (\<lambda>m s target_f. m)\<rparr>"

definition example_dqn :: "unit DQNAgent" where
  "example_dqn =
     \<lparr>dqn_task_shape = 6, dqn_state_size = 3,
      dqn_action_range = 50, dqn_action_low = - 25, dqn_action_high = 25,
      dqn_action_map = [17, 21, 25], dqn_action_size = 3,
      dqn_memory = \<lparr>maxlen = Some 10000, items = []\<rparr>, dqn_model = (), dqn_epsilon = 3,
      dqn_last_state = None, dqn_last_action = None, dqn_total_reward = 0,
      dqn_count = 0, dqn_episode_num = 1, dqn_stats = [], dqn_saved = None,
      dqn_replay_calls = 0\<rparr>"

text \<open>A batch of two experiences and one missing entry.\<close>

definition example_batch :: "(real list, real list) Experience option list" where
  "example_batch =
     [Some (Experience [0, 0, 0] [1, 1, 1] 1 [1, 2, 3] False), None,
      Some (Experience [1, 2, 3] [0, 0, 0] 2 [4, 4, 4] True)]"

text \<open>
  An environment tick for the DQN agent: an observation, reward 0, not done, and draws
  that choose the middle action and the first 64 memory positions. \<open>example_dqn_after k\<close>
  is the agent after \<open>k + 1\<close> such ticks.
\<close>

definition example_dqn_tick :: "real list \<times> real \<times> bool \<times> dqn_rand" where
  "example_dqn_tick =
     ([0, 0, 1], 0, False, \<lparr>rand_u = 0, rand_action = 1, rand_mini_batch = [0..<64]\<rparr>)"

definition example_dqn_after :: "nat \<Rightarrow> unit DQNAgent" where
  "example_dqn_after k =
     example_dqn
       \<lparr>dqn_memory := \<lparr>maxlen = Some 10000, items = replicate k ([0, 0, 1], 1, 0, [0, 0, 1], False)\<rparr>,
        dqn_epsilon := (decay_epsilon ^^ (k - 64)) 3,
        dqn_last_state := Some [0, 0, 1], dqn_last_action := Some 1,
        dqn_replay_calls := k - 64\<rparr>"

section \<open>Replay memory\<close>

lemma drop_window_snoc:
  fixes L :: "'a list"
  shows "drop (length (drop (length L - n) L @ [e]) - n) (drop (length L - n) L @ [e]) =
         drop (length (L @ [e]) - n) (L @ [e])"
proof (cases "length L \<le> n")
  case True
  then show ?thesis by simp
next
  case False
  then have "length L - n + n = length L" by simp
  then show ?thesis using False
    by (cases "n = 0") (auto simp: Suc_diff_le not_le less_imp_le drop_Suc[symmetric] )
qed

lemma deque_append_items:
  "maxlen d = Some n \<Longrightarrow>
   items (deque_append d x) =
     (if n < length (items d @ [x]) then tl (items d @ [x]) else items d @ [x])"
  by (simp add: deque_append_def Let_def)

lemma deque_append_window:
  assumes "maxlen d = Some n" and "items d = drop (length L - n) L"
  shows "items (deque_append d x) = drop (length (L @ [x]) - n) (L @ [x])"
proof -
  have "items (deque_append d x) = drop (length (items d @ [x]) - n) (items d @ [x])"
  proof (cases "n < length (items d @ [x])")
    case True
    moreover have "length (items d) \<le> n" using assms(2) by simp
    ultimately have "length (items d @ [x]) - n = 1" by simp
    then show ?thesis using True assms(1) by (simp only: deque_append_items if_True One_nat_def drop_Suc drop_0)
  next
    case False
    then show ?thesis using assms(1) by (simp add: deque_append_items)
  qed
  then show ?thesis unfolding assms(2) by (simp only: drop_window_snoc)
qed

lemma deque_append_maxlen: "maxlen (deque_append d x) = maxlen d"
  by (simp add: deque_append_def Let_def)

lemma ReplayBuffer_adds_snoc:
  "ReplayBuffer_adds b (es @ [e]) =
     ReplayBuffer_add (ReplayBuffer_adds b es) (state e) (action e) (reward e) (next_state e) (done' e)"
  by (induction es arbitrary: b) simp_all

lemma ReplayBuffer_add_memory:
  "memory (ReplayBuffer_add b s a r s' d) = deque_append (memory b) (Experience s a r s' d)"
  by (simp add: ReplayBuffer_add_def)

lemma ReplayBuffer_adds_window:
  assumes "maxlen (memory b) = Some n" and "items (memory b) = []"
  shows "maxlen (memory (ReplayBuffer_adds b es)) = Some n \<and>
         items (memory (ReplayBuffer_adds b es)) = drop (length es - n) es"
proof (induction es rule: rev_induct)
  case Nil
  then show ?case using assms by simp
next
  case (snoc e es)
  then show ?case
    by (simp only: ReplayBuffer_adds_snoc ReplayBuffer_add_memory deque_append_maxlen
        deque_append_window[where L = es] Experience.collapse simp_thms)
qed

lemma DQNAgent_add_memories_snoc:
  "DQNAgent_add_memories a (ts @ [(s, act, r, s', d)]) =
     DQNAgent_add_memory (DQNAgent_add_memories a ts) s act r s' d"
  by (induction ts arbitrary: a) auto

lemma DQNAgent_add_memories_window:
  assumes "maxlen (dqn_memory a) = Some n" and "items (dqn_memory a) = []"
  shows "maxlen (dqn_memory (DQNAgent_add_memories a ts)) = Some n \<and>
         items (dqn_memory (DQNAgent_add_memories a ts)) = drop (length ts - n) ts"
proof (induction ts rule: rev_induct)
  case Nil
  then show ?case using assms by simp
next
  case (snoc t ts)
  obtain s act r s' d where t: "t = (s, act, r, s', d)" by (cases t) auto
  have m: "dqn_memory (DQNAgent_add_memory b s act r s' d) = deque_append (dqn_memory b) t" for b :: "'a DQNAgent"
    by (simp add: DQNAgent_add_memory_def t)
  show ?case using snoc
    unfolding t DQNAgent_add_memories_snoc
    by (simp only: m[unfolded t] deque_append_maxlen deque_append_window[where L = ts] simp_thms)
qed

lemma ReplayBuffer_init_Inr:
  "ReplayBuffer_init c = Inr b \<Longrightarrow> 0 \<le> c \<and> maxlen (memory b) = Some (nat c) \<and> items (memory b) = []"
  by (auto simp: ReplayBuffer_init_def deque_init_def split: if_splits)

lemma DQNAgent_init_memory:
  "DQNAgent_init t m = Inr a \<Longrightarrow> maxlen (dqn_memory a) = Some (nat MEMORY_SIZE) \<and> items (dqn_memory a) = []"
  by (auto simp: DQNAgent_init_def deque_init_def DQNAgent_reset_episode_vars_def MEMORY_SIZE_def Let_def split: sum.splits if_splits)

text \<open>
  Claim C3. A replay memory of capacity \<open>c\<close>, after any sequence of insertions, holds at
  most \<open>c\<close> entries, and they are the last \<open>c\<close> inserted, in insertion order; after
  \<open>c + 1\<close> insertions the first one inserted is gone. This holds of
  \<^verbatim>\<open>ReplayBuffer.add\<close> and of \<^verbatim>\<open>DQNAgent.add_memory\<close>, whose capacity is
  \<open>MEMORY_SIZE\<close>.
\<close>

theorem replay_memory_fifo:
  "(ReplayBuffer_init c = Inr b \<longrightarrow>
      ReplayBuffer_len (ReplayBuffer_adds b es) \<le> c \<and>
      items (memory (ReplayBuffer_adds b es)) = drop (length es - nat c) es \<and>
      (int (length es) = c + 1 \<longrightarrow>
         items (memory (ReplayBuffer_adds b es)) = tl es \<and>
         (distinct es \<longrightarrow> hd es \<notin> set (items (memory (ReplayBuffer_adds b es)))))) \<and>
   (DQNAgent_init t m = Inr a \<longrightarrow>
      deque_len (dqn_memory (DQNAgent_add_memories a ts)) \<le> MEMORY_SIZE \<and>
      items (dqn_memory (DQNAgent_add_memories a ts)) = drop (length ts - nat MEMORY_SIZE) ts \<and>
      (int (length ts) = MEMORY_SIZE + 1 \<longrightarrow>
         items (dqn_memory (DQNAgent_add_memories a ts)) = tl ts \<and>
         (distinct ts \<longrightarrow> hd ts \<notin> set (items (dqn_memory (DQNAgent_add_memories a ts))))))"
proof (intro conjI impI)
  assume i: "ReplayBuffer_init c = Inr b"
  from ReplayBuffer_init_Inr[OF i] have c: "0 \<le> c" and ml: "maxlen (memory b) = Some (nat c)"
    and it: "items (memory b) = []" by auto
  from ReplayBuffer_adds_window[OF ml it, of es]
  show w: "items (memory (ReplayBuffer_adds b es)) = drop (length es - nat c) es" by simp
  show "ReplayBuffer_len (ReplayBuffer_adds b es) \<le> c"
    using c by (simp add: ReplayBuffer_len_def deque_len_def w)
  assume l: "int (length es) = c + 1"
  then have "length es - nat c = 1" using c by linarith
  then show t: "items (memory (ReplayBuffer_adds b es)) = tl es"
    by (simp add: w drop_Suc)
  assume "distinct es"
  moreover have "es \<noteq> []" using l c by auto
  ultimately show "hd es \<notin> set (items (memory (ReplayBuffer_adds b es)))"
    unfolding t by (cases es) auto
next
  assume i: "DQNAgent_init t m = Inr a"
  from DQNAgent_init_memory[OF i] have ml: "maxlen (dqn_memory a) = Some (nat MEMORY_SIZE)"
    and it: "items (dqn_memory a) = []" by auto
  from DQNAgent_add_memories_window[OF ml it, of ts]
  show w: "items (dqn_memory (DQNAgent_add_memories a ts)) = drop (length ts - nat MEMORY_SIZE) ts" by simp
  show "deque_len (dqn_memory (DQNAgent_add_memories a ts)) \<le> MEMORY_SIZE"
    by (simp add: deque_len_def w MEMORY_SIZE_def)
  assume l: "int (length ts) = MEMORY_SIZE + 1"
  then have "length ts - nat MEMORY_SIZE = 1" by (simp add: MEMORY_SIZE_def)
  then show t: "items (dqn_memory (DQNAgent_add_memories a ts)) = tl ts"
    by (simp add: w drop_Suc)
  assume "distinct ts"
  moreover have "ts \<noteq> []" using l by (auto simp: MEMORY_SIZE_def)
  ultimately show "hd ts \<notin> set (items (dqn_memory (DQNAgent_add_memories a ts)))"
    unfolding t by (cases ts) auto
qed


lemma arange_quad: "rev (np_arange 25 15 (- 4)) = [17, 21, 25]"
  by (simp add: np_arange_def upt_rec[of 0] upt_rec[of 1] upt_rec[of 2] upt_rec[of 3] numeral_3_eq_3)

lemma DQNAgent_init_quad:
  "DQNAgent_init quad_task m =
     Inr \<lparr>dqn_task_shape = 6, dqn_state_size = 3,
             dqn_action_range = 50, dqn_action_low = -25, dqn_action_high = 25,
             dqn_action_map = [17, 21, 25], dqn_action_size = 3,
             dqn_memory = \<lparr>maxlen = Some 10000, items = []\<rparr>, dqn_model = m, dqn_epsilon = 3,
             dqn_last_state = None, dqn_last_action = None, dqn_total_reward = 0,
             dqn_count = 0, dqn_episode_num = 1, dqn_stats = [], dqn_saved = None,
             dqn_replay_calls = 0\<rparr>"
  by (simp add: DQNAgent_init_def quad_task_def np_broadcast_def nth_err_def FORCE_Z_def
      deque_init_def MEMORY_SIZE_def arange_quad DQNAgent_reset_episode_vars_def)

theorem replay_memory_fifo_witness:
  "(ReplayBuffer_init 2 :: error + (real list, real list) Experience ReplayBuffer) =
     Inr \<lparr>rb_size = 2, memory = \<lparr>maxlen = Some 2, items = []\<rparr>\<rparr> \<and>
   items (memory (ReplayBuffer_adds \<lparr>rb_size = 2, memory = \<lparr>maxlen = Some 2, items = []\<rparr>\<rparr>
      [Experience [0::real] [1::real] 1 [1] False, Experience [1] [1] 2 [2] False, Experience [2] [1] 3 [3] True]))
     = [Experience [1] [1] 2 [2] False, Experience [2] [1] 3 [3] True] \<and>
   Experience [0::real] [1::real] 1 [1] False \<notin>
     set (items (memory (ReplayBuffer_adds \<lparr>rb_size = 2, memory = \<lparr>maxlen = Some 2, items = []\<rparr>\<rparr>
      [Experience [0] [1] 1 [1] False, Experience [1] [1] 2 [2] False, Experience [2] [1] 3 [3] True]))) \<and>
   (\<exists>a. DQNAgent_init quad_task () = Inr a \<and>
      ([], 0, 0, [], False) \<notin>
        set (items (dqn_memory (DQNAgent_add_memories a (map (\<lambda>i. ([], i, 0, [], False)) [0..<10001])))))"
proof -
  let ?b = "\<lparr>rb_size = 2, memory = \<lparr>maxlen = Some 2, items = []\<rparr>\<rparr> :: (real list, real list) Experience ReplayBuffer"
  let ?es = "[Experience [0::real] [1::real] 1 [1] False, Experience [1] [1] 2 [2] False, Experience [2] [1] 3 [3] True]"
  let ?ts = "map (\<lambda>i. ([], i, 0, [], False)) [0..<10001] :: transition list"
  have i: "ReplayBuffer_init 2 = Inr ?b"
    by (simp add: ReplayBuffer_init_def deque_init_def)
  obtain a where a: "DQNAgent_init quad_task () = Inr a"
    by (simp add: DQNAgent_init_quad)
  have d: "distinct ?ts" by (simp add: distinct_map inj_on_def)
  have h: "hd ?ts = ([], 0, 0, [], False)" by (simp add: hd_map upt_rec[of 0])
  have l: "int (length ?ts) = MEMORY_SIZE + 1" by (simp add: MEMORY_SIZE_def)
  have le: "int (length ?es) = 2 + 1" by simp
  have de: "distinct ?es" by simp
  note T = replay_memory_fifo[of 2 ?b ?es quad_task "()" a ?ts]
  from T i le de have 1: "items (memory (ReplayBuffer_adds ?b ?es)) = tl ?es"
    and 2: "hd ?es \<notin> set (items (memory (ReplayBuffer_adds ?b ?es)))"
    by blast+
  from T a l d have 3: "hd ?ts \<notin> set (items (dqn_memory (DQNAgent_add_memories a ?ts)))"
    by blast
  from 1 2 3[unfolded h]
  show ?thesis using i a by simp
qed

section \<open>Array operations\<close>

lemma np_broadcast_same:
  "length xs = length ys \<Longrightarrow> np_broadcast f xs ys = Inr (map2 f xs ys)"
  by (simp add: np_broadcast_def)

section \<open>Soft update\<close>


lemma map_length_eq_length: "map length ws = map length vs \<Longrightarrow> length ws = length vs"
  by (metis length_map)

lemma map_length_eq_nth:
  "map length ws = map length vs \<Longrightarrow> i < length vs \<Longrightarrow> length (ws ! i) = length (vs ! i)"
  by (metis length_map nth_map)

lemma weighted_sum_shape:
  assumes "map length ws = map length vs"
  shows "map length (map2 (map2 (+)) (map (map f) ws) (map (map g) vs)) = map length vs"
proof (rule nth_equalityI)
  show "length (map length (map2 (map2 (+)) (map (map f) ws) (map (map g) vs))) = length (map length vs)"
    using map_length_eq_length[OF assms] by simp
next
  fix i assume "i < length (map length (map2 (map2 (+)) (map (map f) ws) (map (map g) vs)))"
  then have i: "i < length vs" "i < length ws" using map_length_eq_length[OF assms] by simp_all
  then show "map length (map2 (map2 (+)) (map (map f) ws) (map (map g) vs)) ! i = map length vs ! i"
    using map_length_eq_nth[OF assms, of i] by simp
qed

lemma weighted_sum_nth:
  fixes f g :: "real \<Rightarrow> real"
  assumes "map length ws = map length vs" and "i < length vs" and "j < length (vs ! i)"
  shows "map2 (map2 (+)) (map (map f) ws) (map (map g) vs) ! i ! j = f (ws ! i ! j) + g (vs ! i ! j)"
proof -
  have "i < length ws" using map_length_eq_length[OF assms(1)] assms(2) by simp
  moreover have "j < length (ws ! i)" using map_length_eq_nth[OF assms(1,2)] assms(3) by simp
  ultimately show ?thesis using assms(2,3) by simp
qed

lemma nested_list_eqI:
  assumes "map length xs = map length ys"
    and "\<And>i j. i < length ys \<Longrightarrow> j < length (ys ! i) \<Longrightarrow> xs ! i ! j = ys ! i ! j"
  shows "xs = ys"
proof (rule nth_equalityI)
  show "length xs = length ys" using assms(1) by (rule map_length_eq_length)
next
  fix i assume "i < length xs"
  then have i: "i < length ys" using map_length_eq_length[OF assms(1)] by simp
  show "xs ! i = ys ! i"
  proof (rule nth_equalityI)
    show "length (xs ! i) = length (ys ! i)" using assms(1) i by (rule map_length_eq_nth)
  next
    fix j assume "j < length (xs ! i)"
    then have "j < length (ys ! i)" using map_length_eq_nth[OF assms(1) i] by simp
    then show "xs ! i ! j = ys ! i ! j" using i assms(2) by simp
  qed
qed

lemma DDPGAgent_soft_update_Inr:
  assumes "map length (weights local_model) = map length (weights target_model)"
  shows "DDPGAgent_soft_update a local_model target_model =
           Inr (target_model\<lparr>weights :=
                  map2 (map2 (+)) (map (map ((*) (ddpg_tau a))) (weights local_model))
                                  (map (map ((*) (1 - ddpg_tau a))) (weights target_model))\<rparr>)"
proof -
  have m: "map length (map (map f) ws) = map length ws" for f :: "real \<Rightarrow> real" and ws
    by (induction ws) simp_all
  have "np_add_tensors (map (map ((*) (ddpg_tau a))) (weights local_model))
          (map (map ((*) (1 - ddpg_tau a))) (weights target_model)) =
        Inr (map2 (map2 (+)) (map (map ((*) (ddpg_tau a))) (weights local_model))
                             (map (map ((*) (1 - ddpg_tau a))) (weights target_model)))"
    unfolding np_add_tensors_def m using assms by (simp only: if_True simp_thms)
  then show ?thesis
    using weighted_sum_shape[OF assms, of "(*) (ddpg_tau a)" "(*) (1 - ddpg_tau a)"]
    by (simp only: DDPGAgent_soft_update_def get_weights_def Let_def set_weights_def sum.case if_True simp_thms)
qed

text \<open>
  Claim C2. For a local and a target model with parameter tensors of the same shapes,
  the soft update succeeds and sets every parameter of the target to
  \<open>tau * local + (1 - tau) * target\<close>; with \<open>tau = 0\<close> the target parameters are
  unchanged, with \<open>tau = 1\<close> they become the local parameters.
\<close>

theorem soft_update_elementwise:
  assumes "map length (weights local_model) = map length (weights target_model)"
  shows "\<exists>new_target.
           DDPGAgent_soft_update a local_model target_model = Inr new_target \<and>
           optimizer new_target = optimizer target_model \<and>
           map length (weights new_target) = map length (weights target_model) \<and>
           (\<forall>i < length (weights target_model). \<forall>j < length (weights target_model ! i).
              weights new_target ! i ! j =
                ddpg_tau a * (weights local_model ! i ! j) +
                (1 - ddpg_tau a) * (weights target_model ! i ! j)) \<and>
           (ddpg_tau a = 0 \<longrightarrow> weights new_target = weights target_model) \<and>
           (ddpg_tau a = 1 \<longrightarrow> weights new_target = weights local_model)"
proof -
  let ?w = "map2 (map2 (+)) (map (map ((*) (ddpg_tau a))) (weights local_model))
                            (map (map ((*) (1 - ddpg_tau a))) (weights target_model))"
  have sh: "map length ?w = map length (weights target_model)"
    using assms by (rule weighted_sum_shape)
  have el: "?w ! i ! j = ddpg_tau a * (weights local_model ! i ! j) +
              (1 - ddpg_tau a) * (weights target_model ! i ! j)"
    if "i < length (weights target_model)" "j < length (weights target_model ! i)" for i j
    using assms that by (rule weighted_sum_nth)
  have t0: "?w = weights target_model" if "ddpg_tau a = 0"
    using sh
  proof (rule nested_list_eqI)
    fix i j assume "i < length (weights target_model)" "j < length (weights target_model ! i)"
    from el[OF this] show "?w ! i ! j = weights target_model ! i ! j" using that by simp
  qed
  have t1: "?w = weights local_model" if "ddpg_tau a = 1"
    using sh[folded assms]
  proof (rule nested_list_eqI)
    fix i j assume "i < length (weights local_model)" "j < length (weights local_model ! i)"
    then have "i < length (weights target_model)" "j < length (weights target_model ! i)"
      using map_length_eq_length[OF assms] map_length_eq_nth[OF assms, of i] by simp_all
    from el[OF this] show "?w ! i ! j = weights local_model ! i ! j" using that by simp
  qed
  show ?thesis
    unfolding DDPGAgent_soft_update_Inr[OF assms]
    using sh el t0 t1 by simp
qed

theorem soft_update_elementwise_witness:
  "\<exists>new_target.
     DDPGAgent_soft_update example_ddpg example_model example_target_model = Inr new_target \<and>
     weights new_target = [[1, 1001], [- 996]]"
proof -
  have sh: "map length (weights example_model) = map length (weights example_target_model)"
    by (simp add: example_model_def example_target_model_def)
  from soft_update_elementwise[OF sh, of example_ddpg]
  obtain nt where nt: "DDPGAgent_soft_update example_ddpg example_model example_target_model = Inr nt"
    by blast
  then have "weights nt = [[1, 1001], [- 996]]"
    by (auto simp: DDPGAgent_soft_update_def get_weights_def np_add_tensors_def set_weights_def
        example_model_def example_target_model_def example_ddpg_def)
  with nt show ?thesis by blast
qed


section \<open>Exploration noise\<close>

lemma replicate_3: "replicate 3 x = [x, x, x]"
  by (simp add: numeral_3_eq_3)

lemma OUNoise_sample_Inr:
  assumes "length (mu n) = length (noise_state n)" and "length g = length (noise_state n)"
  shows "OUNoise_sample n g =
           (let s = map2 (+) (noise_state n)
                      (map2 (+) (map ((*) (theta n)) (map2 (-) (mu n) (noise_state n)))
                                (map ((*) (sigma n)) g))
            in Inr (n\<lparr>noise_state := s\<rparr>, s))"
  using assms by (simp add: OUNoise_sample_def Let_def np_broadcast_same)

lemma OUNoise_step_nth:
  fixes x m g :: "real list"
  assumes "length m = length x" and "length g = length x" and "i < length x"
  shows "map2 (+) x (map2 (+) (map ((*) th) (map2 (-) m x)) (map ((*) sg) g)) ! i =
           x ! i + (th * (m ! i - x ! i) + sg * g ! i)"
  using assms by simp

text \<open>
  Claim C4. For a noise process whose state and mean have one length, and a draw \<open>g\<close>
  of that length, \<^verbatim>\<open>sample\<close> replaces the state by
  \<open>state + theta * (mu - state) + sigma * g\<close>, entry by entry, and returns the new state;
  \<^verbatim>\<open>reset\<close> sets the state to \<open>mu\<close>, so a sample right after a reset is \<open>mu\<close> plus
  the one delta \<open>theta * (mu - mu) + sigma * g\<close>.
\<close>

theorem ou_noise_sample_reset:
  assumes "length (mu n) = length (noise_state n)" and "length g = length (noise_state n)"
  shows "(\<exists>n' s. OUNoise_sample n g = Inr (n', s) \<and>
            noise_state n' = s \<and> mu n' = mu n \<and> theta n' = theta n \<and> sigma n' = sigma n \<and>
            length s = length (noise_state n) \<and>
            (\<forall>i < length (noise_state n).
               s ! i = noise_state n ! i +
                 (theta n * (mu n ! i - noise_state n ! i) + sigma n * g ! i))) \<and>
         noise_state (OUNoise_reset n) = mu n \<and>
         (\<exists>n' s. OUNoise_sample (OUNoise_reset n) g = Inr (n', s) \<and>
            length s = length (mu n) \<and>
            (\<forall>i < length (mu n).
               s ! i = mu n ! i + (theta n * (mu n ! i - mu n ! i) + sigma n * g ! i)))"
proof (intro conjI)
  show "\<exists>n' s. OUNoise_sample n g = Inr (n', s) \<and>
            noise_state n' = s \<and> mu n' = mu n \<and> theta n' = theta n \<and> sigma n' = sigma n \<and>
            length s = length (noise_state n) \<and>
            (\<forall>i < length (noise_state n).
               s ! i = noise_state n ! i +
                 (theta n * (mu n ! i - noise_state n ! i) + sigma n * g ! i))"
    unfolding OUNoise_sample_Inr[OF assms] Let_def
    using assms by (simp add: OUNoise_step_nth)
  show "noise_state (OUNoise_reset n) = mu n"
    by (simp add: OUNoise_reset_def)
  have r: "length (mu (OUNoise_reset n)) = length (noise_state (OUNoise_reset n))"
    "length g = length (noise_state (OUNoise_reset n))"
    using assms by (simp_all add: OUNoise_reset_def)
  show "\<exists>n' s. OUNoise_sample (OUNoise_reset n) g = Inr (n', s) \<and>
            length s = length (mu n) \<and>
            (\<forall>i < length (mu n).
               s ! i = mu n ! i + (theta n * (mu n ! i - mu n ! i) + sigma n * g ! i))"
    unfolding OUNoise_sample_Inr[OF r] Let_def
    using assms by (simp add: OUNoise_reset_def)
qed

theorem ou_noise_sample_reset_witness:
  "OUNoise_init 3 None (15 / 100) (3 / 10) =
     Inr \<lparr>noise_size = 3, mu = [0, 0, 0], theta = 15 / 100, sigma = 3 / 10, noise_state = [0, 0, 0]\<rparr> \<and>
   (\<exists>n' s. OUNoise_sample \<lparr>noise_size = 3, mu = [0, 0, 0], theta = 15 / 100, sigma = 3 / 10,
                noise_state = [1, 2, 4]\<rparr> [10, 0, -10] = Inr (n', s) \<and>
            noise_state n' = s \<and> s ! 0 = 1 + (15 / 100 * (0 - 1) + 3 / 10 * 10)) \<and>
   (\<exists>n' s. OUNoise_sample (OUNoise_reset \<lparr>noise_size = 3, mu = [0, 0, 0], theta = 15 / 100,
                sigma = 3 / 10, noise_state = [1, 2, 4]\<rparr>) [10, 0, -10] = Inr (n', s) \<and>
            s ! 0 = 0 + (15 / 100 * (0 - 0) + 3 / 10 * 10))"
proof -
  let ?n = "\<lparr>noise_size = 3, mu = [0, 0, 0], theta = 15 / 100, sigma = 3 / 10, noise_state = [1, 2, 4]\<rparr>"
  have i: "OUNoise_init 3 None (15 / 100) (3 / 10) =
     Inr \<lparr>noise_size = 3, mu = [0, 0, 0], theta = 15 / 100, sigma = 3 / 10, noise_state = [0, 0, 0]\<rparr>"
    by (simp add: OUNoise_init_def np_broadcast_def replicate_3 Let_def)
  have h: "length (mu ?n) = length (noise_state ?n)" "length [10, 0, -10 :: real] = length (noise_state ?n)"
    by simp_all
  note T = ou_noise_sample_reset[OF h]
  from T obtain n1 s1 where 1: "OUNoise_sample ?n [10, 0, -10] = Inr (n1, s1)" "noise_state n1 = s1"
    and e1: "\<forall>i < length (noise_state ?n).
               s1 ! i = noise_state ?n ! i + (theta ?n * (mu ?n ! i - noise_state ?n ! i) + sigma ?n * [10, 0, -10] ! i)"
    by blast
  from T obtain n2 s2 where 2: "OUNoise_sample (OUNoise_reset ?n) [10, 0, -10] = Inr (n2, s2)"
    and e2: "\<forall>i < length (mu ?n).
               s2 ! i = mu ?n ! i + (theta ?n * (mu ?n ! i - mu ?n ! i) + sigma ?n * [10, 0, -10] ! i)"
    by blast
  have v1: "s1 ! 0 = 1 + (15 / 100 * (0 - 1) + 3 / 10 * 10)"
    using e1[rule_format, of 0] by simp
  have v2: "s2 ! 0 = 0 + (15 / 100 * (0 - 0) + 3 / 10 * 10)"
    using e2[rule_format, of 0] by simp
  show ?thesis
    using i 1 2 v1 v2 by blast
qed


section \<open>Targets of the learning updates\<close>

lemma np_vstack_Inr: "np_vstack rows = Inr rows' \<Longrightarrow> rows' = rows \<and> rows \<noteq> []"
  by (auto simp: np_vstack_def np_array_rows_def split: if_splits)

lemma uint8_not_done: "real (unat (1 - (if d then (1 :: 8 word) else 0))) = 1 - (if d then 1 else 0)"
  by simp

lemma map2_map_same: "map2 f (map g xs) (map h (map g xs)) = map (\<lambda>x. f (g x) (h (g x))) xs"
  by (induction xs) simp_all

lemma DDPGAgent_q_targets_Inr:
  assumes "np_vstack (map next_state (present experiences)) = Inr next_states"
  shows "DDPGAgent_q_targets K a experiences =
     Inr (map (\<lambda>e. float32 K (reward e) +
                 ddpg_gamma a *
                   critic_predict K (weights (ddpg_critic_target a)) (next_state e)
                     (actor_predict K (weights (ddpg_actor_target a)) (next_state e)) *
                   (1 - (if done' e then 1 else 0)))
            (present experiences))"
proof -
  let ?es = "present experiences"
  let ?q = "\<lambda>s. critic_predict K (weights (ddpg_critic_target a)) s
               (actor_predict K (weights (ddpg_actor_target a)) s)"
  have ns: "next_states = map next_state ?es"
    using np_vstack_Inr[OF assms] by simp
  have q: "map2 (critic_predict K (weights (ddpg_critic_target a))) next_states
             (map (actor_predict K (weights (ddpg_actor_target a))) next_states) =
           map (\<lambda>e. ?q (next_state e)) ?es"
    unfolding ns by (rule map2_map_same)
  have t: "np_broadcast (*) (map ((*) (ddpg_gamma a)) (map (\<lambda>e. ?q (next_state e)) ?es))
             (map (\<lambda>d. real (unat (1 - d))) (map (\<lambda>e. if done' e then (1 :: 8 word) else 0) ?es)) =
           Inr (map (\<lambda>e. ddpg_gamma a * ?q (next_state e) * (1 - (if done' e then 1 else 0))) ?es)"
    by (subst np_broadcast_same) (simp_all add: zip_map_map zip_same_conv_map comp_def)
  have r: "np_broadcast (+) (map (\<lambda>e. float32 K (reward e)) ?es)
             (map (\<lambda>e. ddpg_gamma a * ?q (next_state e) * (1 - (if done' e then 1 else 0))) ?es) =
           Inr (map (\<lambda>e. float32 K (reward e) +
                   ddpg_gamma a * ?q (next_state e) * (1 - (if done' e then 1 else 0))) ?es)"
    by (subst np_broadcast_same) (simp_all add: zip_map_map zip_same_conv_map comp_def)
  show ?thesis
    unfolding DDPGAgent_q_targets_def Let_def assms sum.case q t r ..
qed


lemma present_map_Some: "present (map Some xs) = xs"
  by (induction xs) (simp_all add: present_def)

lemma DDPGAgent_learn_critic:
  "DDPGAgent_learn K a experiences = Inr a' \<Longrightarrow>
   \<exists>states actions ys. DDPGAgent_q_targets K a experiences = Inr ys \<and>
      ddpg_critic_local a' = critic_train_on_batch K (ddpg_critic_local a) states actions ys"
  by (auto simp: DDPGAgent_learn_def Let_def split: sum.splits) blast

lemma DQNAgent_target_done: "DQNAgent_target K m r s' True = Inr r"
  by (simp add: DQNAgent_target_def)

text \<open>
  Claim C1. For a batch whose next states stack (it is not empty and they have one
  length), the Q targets of \<^verbatim>\<open>DDPGAgent.learn\<close> are, transition by transition,
  \<open>reward + gamma * target_Q * (1 - done)\<close>, where \<open>target_Q\<close> is the target critic's
  value of the next state and the target actor's action there; they are what the local
  critic is trained on. In \<^verbatim>\<open>DQNAgent.replay\<close> the target of a terminal transition is
  its reward.
\<close>

theorem td_targets:
  "(np_vstack (map next_state (present experiences)) = Inr next_states \<longrightarrow>
      (\<exists>y. DDPGAgent_q_targets K a experiences = Inr y \<and>
         length y = length (present experiences) \<and>
         (\<forall>i < length (present experiences).
            let e = present experiences ! i;
                next_action = actor_predict K (weights (ddpg_actor_target a)) (next_state e);
                target_Q = critic_predict K (weights (ddpg_critic_target a)) (next_state e) next_action
            in y ! i = float32 K (reward e) + ddpg_gamma a * target_Q * (1 - (if done' e then 1 else 0))))) \<and>
   (DDPGAgent_learn K a experiences = Inr a' \<longrightarrow>
      (\<exists>states actions y. DDPGAgent_q_targets K a experiences = Inr y \<and>
         ddpg_critic_local a' = critic_train_on_batch K (ddpg_critic_local a) states actions y)) \<and>
   DQNAgent_target KQ m r s' True = Inr r"
proof (intro conjI impI)
  assume "np_vstack (map next_state (present experiences)) = Inr next_states"
  then show "\<exists>y. DDPGAgent_q_targets K a experiences = Inr y \<and>
         length y = length (present experiences) \<and>
         (\<forall>i < length (present experiences).
            let e = present experiences ! i;
                next_action = actor_predict K (weights (ddpg_actor_target a)) (next_state e);
                target_Q = critic_predict K (weights (ddpg_critic_target a)) (next_state e) next_action
            in y ! i = float32 K (reward e) + ddpg_gamma a * target_Q * (1 - (if done' e then 1 else 0)))"
    by (simp add: DDPGAgent_q_targets_Inr Let_def)
next
  assume "DDPGAgent_learn K a experiences = Inr a'"
  then show "\<exists>states actions y. DDPGAgent_q_targets K a experiences = Inr y \<and>
         ddpg_critic_local a' = critic_train_on_batch K (ddpg_critic_local a) states actions y"
    by (rule DDPGAgent_learn_critic)
next
  show "DQNAgent_target KQ m r s' True = Inr r" by (rule DQNAgent_target_done)
qed

lemma present_example_batch:
  "present example_batch =
     [Experience [0, 0, 0] [1, 1, 1] 1 [1, 2, 3] False, Experience [1, 2, 3] [0, 0, 0] 2 [4, 4, 4] True]"
  by (simp add: example_batch_def present_def)

lemma vstack_example_batch:
  "np_vstack (map next_state (present example_batch)) = Inr [[1, 2, 3], [4, 4, 4]]"
  by (simp add: present_example_batch np_vstack_def np_array_rows_def)

theorem td_targets_witness:
  "DDPGAgent_q_targets example_keras (example_ddpg\<lparr>ddpg_gamma := 1 / 2\<rparr>) example_batch = Inr [4, 2] \<and>
   DQNAgent_target example_dqn_keras () 7 [1, 2, 3] True = Inr 7"
proof -
  let ?a = "example_ddpg\<lparr>ddpg_gamma := 1 / 2\<rparr>"
  note T = td_targets[of example_batch "[[1, 2, 3], [4, 4, 4]]" example_keras ?a ?a example_dqn_keras "()" 7 "[1, 2, 3]"]
  from T vstack_example_batch obtain y where y: "DDPGAgent_q_targets example_keras ?a example_batch = Inr y"
    and l: "length y = length (present example_batch)"
    and e: "\<forall>i < length (present example_batch).
            let e = present example_batch ! i;
                next_action = actor_predict example_keras (weights (ddpg_actor_target ?a)) (next_state e);
                target_Q = critic_predict example_keras (weights (ddpg_critic_target ?a)) (next_state e) next_action
            in y ! i = float32 example_keras (reward e) + ddpg_gamma ?a * target_Q * (1 - (if done' e then 1 else 0))"
    by blast
  from T have d: "DQNAgent_target example_dqn_keras () 7 [1, 2, 3] True = Inr 7" by blast
  have "y ! 0 = 4" using e[rule_format, of 0]
    by (simp add: present_example_batch example_keras_def example_ddpg_def Let_def)
  moreover have "y ! 1 = 2" using e[rule_format, of 1]
    by (simp add: present_example_batch example_keras_def example_ddpg_def Let_def)
  moreover have "length y = 2" using l by (simp add: present_example_batch)
  ultimately have "y = [4, 2]"
    by (cases y; cases "tl y") auto
  with y d show ?thesis by simp
qed

section \<open>The target vector of the Q network\<close>

lemma DQNAgent_replay_loop_append:
  "DQNAgent_replay_loop K m (pre @ post) =
     (case DQNAgent_replay_loop K m pre of Inl e \<Rightarrow> Inl e | Inr m1 \<Rightarrow> DQNAgent_replay_loop K m1 post)"
  by (induction pre arbitrary: m) (auto split: sum.splits)

text \<open>
  Claim C8. In \<^verbatim>\<open>DQNAgent.replay\<close> the target vector of a transition is the current
  prediction on its state with the entry of the taken action replaced by the scalar
  target and every other entry kept; every transition of the mini batch is fitted to
  this vector, computed with the network as the transitions before it left it.
\<close>

theorem dqn_target_vector:
  "(act < length (predict K m s) \<longrightarrow>
      (\<exists>target_f. DQNAgent_target_f K m s act target = Inr target_f \<and>
         length target_f = length (predict K m s) \<and>
         target_f ! act = target \<and>
         (\<forall>j < length target_f. j \<noteq> act \<longrightarrow> target_f ! j = predict K m s ! j))) \<and>
   (DQNAgent_replay_loop K m0 (pre @ (s, act, r, s', d) # post) = Inr m' \<longrightarrow>
      (\<exists>m1 tg. DQNAgent_replay_loop K m0 pre = Inr m1 \<and>
         DQNAgent_target K m1 r s' d = Inr tg \<and>
         act < length (predict K m1 s) \<and>
         DQNAgent_replay_loop K (fit K m1 s ((predict K m1 s)[act := tg])) post = Inr m'))"
proof (intro conjI impI)
  assume "act < length (predict K m s)"
  then show "\<exists>target_f. DQNAgent_target_f K m s act target = Inr target_f \<and>
         length target_f = length (predict K m s) \<and>
         target_f ! act = target \<and>
         (\<forall>j < length target_f. j \<noteq> act \<longrightarrow> target_f ! j = predict K m s ! j)"
    by (simp add: DQNAgent_target_f_def Let_def)
next
  assume "DQNAgent_replay_loop K m0 (pre @ (s, act, r, s', d) # post) = Inr m'"
  then show "\<exists>m1 tg. DQNAgent_replay_loop K m0 pre = Inr m1 \<and>
         DQNAgent_target K m1 r s' d = Inr tg \<and>
         act < length (predict K m1 s) \<and>
         DQNAgent_replay_loop K (fit K m1 s ((predict K m1 s)[act := tg])) post = Inr m'"
    by (auto simp: DQNAgent_replay_loop_append DQNAgent_target_f_def Let_def split: sum.splits if_splits)
qed

theorem dqn_target_vector_witness:
  "DQNAgent_target_f example_dqn_keras () [1, 2, 3] 2 7 = Inr [0, 1, 7] \<and>
   DQNAgent_replay_loop example_dqn_keras () [([1, 2, 3], 2, 7, [4, 5, 6], True)] = Inr ()"
proof -
  have p: "(2::nat) < length (predict example_dqn_keras () [1, 2, 3])"
    by (simp add: example_dqn_keras_def)
  note T = dqn_target_vector[of 2 example_dqn_keras "()" "[1, 2, 3]" 7 "()" "[]" 7 "[4, 5, 6]" True "[]" "()"]
  from T p obtain tf where tf: "DQNAgent_target_f example_dqn_keras () [1, 2, 3] 2 7 = Inr tf"
    and "length tf = length (predict example_dqn_keras () [1, 2, 3])" and "tf ! 2 = 7"
    and "\<forall>j < length tf. j \<noteq> 2 \<longrightarrow> tf ! j = predict example_dqn_keras () [1, 2, 3] ! j"
    by blast
  then have "tf = [0, 1, 7]"
    by (simp add: DQNAgent_target_f_def example_dqn_keras_def)
  moreover have "DQNAgent_replay_loop example_dqn_keras () [([1, 2, 3], 2, 7, [4, 5, 6], True)] = Inr ()"
    by (simp add: DQNAgent_target_def DQNAgent_target_f_def example_dqn_keras_def)
  ultimately show ?thesis using tf by simp
qed

section \<open>Sampling the replay buffer\<close>



end
